theory Spec2Isabelle
  imports Complex_Main "HOL-Library.Word"
begin

section \<open>Python values used by the adapter\<close>

text \<open>
  A Python \<open>str\<close> is a sequence of Unicode code points, so it is modelled as a list of
  natural numbers (not as a byte string: \<open>str.strip\<close> and \<open>str.endswith\<close> work on code
  points). \<open>ascii\<close> writes an ASCII literal as such a string; the non-ASCII literals of
  the source are written out by code point.
\<close>

type_synonym pystr = "nat list"

type_synonym bytes = "8 word list"

definition ascii :: "string \<Rightarrow> pystr" where
  "ascii s = map of_char s"

text \<open>Numbers of the configuration are only copied, never computed with.\<close>

datatype pynum = PyInt int | PyFloat real

text \<open>
  \<open>str.isspace\<close> of one code point, as CPython's \<open>_PyUnicode_IsWhitespace\<close> has it:
  U+0009..U+000D, U+001C..U+0020, U+0085, U+00A0, U+1680, U+2000..U+200A, U+2028, U+2029,
  U+202F, U+205F, U+3000.
\<close>

definition isspace :: "nat \<Rightarrow> bool" where
  "isspace c = (c \<in> set [0x09, 0x0A, 0x0B, 0x0C, 0x0D, 0x1C, 0x1D, 0x1E, 0x1F, 0x20,
      0x85, 0xA0, 0x1680, 0x2000, 0x2001, 0x2002, 0x2003, 0x2004, 0x2005, 0x2006,
      0x2007, 0x2008, 0x2009, 0x200A, 0x2028, 0x2029, 0x202F, 0x205F, 0x3000])"

text \<open>\<open>text.strip()\<close>: leading and trailing whitespace removed.\<close>

definition strip :: "pystr \<Rightarrow> pystr" where
  "strip s = rev (dropWhile isspace (rev (dropWhile isspace s)))"

text \<open>\<open>s.endswith(suf)\<close> and \<open>s.startswith(pre)\<close>.\<close>

definition endswith :: "pystr \<Rightarrow> pystr \<Rightarrow> bool" where
  "endswith s suf = (length suf \<le> length s \<and> drop (length s - length suf) s = suf)"

definition startswith :: "pystr \<Rightarrow> pystr \<Rightarrow> bool" where
  "startswith s pre = (take (length pre) s = pre)"

text \<open>\<open>str(n)\<close> of a non-negative integer (the HTTP status inside an f-string).\<close>

fun str_nat :: "nat \<Rightarrow> pystr" where
  "str_nat n = (if n < 10 then [48 + n] else str_nat (n div 10) @ [48 + n mod 10])"

declare str_nat.simps [simp del]

text \<open>
  \<open>os.path.join(a, b)\<close> on POSIX: an absolute \<open>b\<close> replaces \<open>a\<close>; otherwise the two are
  joined with one separator unless \<open>a\<close> is empty or already ends in one.
\<close>

definition path_join :: "pystr \<Rightarrow> pystr \<Rightarrow> pystr" where
  "path_join a b =
     (if startswith b (ascii ''/'') then b
      else if a = [] \<or> endswith a (ascii ''/'') then a @ b
      else a @ ascii ''/'' @ b)"

section \<open>Exceptions\<close>

text \<open>
  The exceptions the code raises or catches, each with its \<open>str(e)\<close>. All of them are
  subclasses of \<open>Exception\<close>. \<open>ClientError\<close> is \<open>aiohttp.ClientError\<close>, \<open>TimeoutError\<close> is
  \<open>asyncio.TimeoutError\<close>, and \<open>OtherException\<close> stands for every other class
  (\<open>OSError\<close>, \<open>UnicodeDecodeError\<close>, \<open>TypeError\<close>, ...).
\<close>

datatype exn =
    ValueError pystr
  | RuntimeError pystr
  | ClientError pystr
  | TimeoutError pystr
  | OtherException pystr

fun exn_str :: "exn \<Rightarrow> pystr" where
  "exn_str (ValueError m) = m"
| "exn_str (RuntimeError m) = m"
| "exn_str (ClientError m) = m"
| "exn_str (TimeoutError m) = m"
| "exn_str (OtherException m) = m"

section \<open>The adapter and its construction\<close>

text \<open>
  \<open>provider_config\<close> is a dict read with \<open>.get(key, default)\<close>: a key is present with a
  value of the type the adapter uses it at, or absent.
\<close>

record provider_config =
  cfg_api_base :: "pystr option"
  cfg_api_key :: "pystr option"
  cfg_timeout :: "pynum option"
  cfg_role :: "pystr option"
  cfg_emotion :: "pystr option"
  cfg_speed :: "pynum option"
  cfg_model :: "pystr option"

definition dict_get :: "'a option \<Rightarrow> 'a \<Rightarrow> 'a" where
  "dict_get v d = (case v of None \<Rightarrow> d | Some x \<Rightarrow> x)"

text \<open>The attributes of a \<open>ProviderCustomTTS\<close> object.\<close>

record adapter =
  api_base :: pystr
  api_key :: pystr
  timeout :: pynum
  role :: pystr
  emotion :: pystr
  speed :: pynum
  headers :: "pystr \<rightharpoonup> pystr"
  model_name :: pystr

text \<open>The default role (U+7F2A U+5C14 U+8D5B U+65AF) and emotion (U+5E73 U+5E38).\<close>

definition default_role :: pystr where
  "default_role = [0x7F2A, 0x5C14, 0x8D5B, 0x65AF]"

definition default_emotion :: pystr where
  "default_emotion = [0x5E73, 0x5E38]"

definition base_headers :: "pystr \<rightharpoonup> pystr" where
  "base_headers =
     [ascii ''Content-Type'' \<mapsto> ascii ''application/json'',
      ascii ''User-Agent'' \<mapsto> ascii ''AstrBot-CustomTTS/1.0'']"

text \<open>
  \<open>ProviderCustomTTS.__init__\<close>. \<open>api_base[:-1]\<close> is \<open>butlast\<close>; \<open>if self.api_key\<close> is
  true of a non-empty string. The base class only stores the model name (\<open>set_model\<close>).
\<close>

definition init :: "provider_config \<Rightarrow> adapter" where
  "init provider_config =
     (let base = dict_get (cfg_api_base provider_config) (ascii ''http://127.0.0.1:50042'');
          base = (if endswith base (ascii ''/'') then butlast base else base);
          key = dict_get (cfg_api_key provider_config) [];
          hdrs = (if key \<noteq> [] then base_headers(ascii ''Authorization'' \<mapsto> ascii ''Bearer '' @ key)
                  else base_headers)
      in \<lparr> api_base = base,
           api_key = key,
           timeout = dict_get (cfg_timeout provider_config) (PyInt 30),
           role = dict_get (cfg_role provider_config) default_role,
           emotion = dict_get (cfg_emotion provider_config) default_emotion,
           speed = dict_get (cfg_speed provider_config) (PyFloat 1.0),
           headers = hdrs,
           model_name = dict_get (cfg_model provider_config) (ascii ''custom_tts'') \<rparr>)"

section \<open>The outside world\<close>

text \<open>The JSON body and the POST that \<open>session.post\<close> sends.\<close>

record request_data =
  rd_role :: pystr
  rd_emotion :: pystr
  rd_content :: pystr
  rd_speed :: pynum

record http_request =
  req_url :: pystr
  req_json :: request_data
  req_headers :: "pystr \<rightharpoonup> pystr"
  req_timeout :: pynum

text \<open>
  What the code observes of an \<open>aiohttp\<close> response: its status, and the results of
  \<open>await response.read()\<close> and \<open>await response.text()\<close>, each of which may raise.
\<close>

record response =
  resp_status :: nat
  resp_read :: "exn + bytes"
  resp_text :: "exn + pystr"

text \<open>
  The collaborators the adapter does not control: the data directory of the host
  (\<open>get_astrbot_data_path()\<close>), the successive values of \<open>uuid.uuid4().hex\<close>, the
  remote service together with the network (a POST is answered or raises), and the
  operating system under the disk. Of the latter:
  \<^item> \<open>oserror_text n p\<close> is \<open>str(e)\<close> of the \<open>OSError\<close> with errno \<open>n\<close> for the file
    name \<open>p\<close> (the platform's message and the \<open>repr\<close> of the name);
  \<^item> \<open>mkdir_fault p\<close> is the error with which creating the directory \<open>p\<close> fails for a
    reason outside the files and directories tracked here (an ancestor that is not a
    directory, permissions, a read-only disk), if it does;
  \<^item> \<open>open_fault p\<close> is such an error of \<open>open(p, "wb")\<close>;
  \<^item> \<open>write_fault p d\<close> is such an error of writing \<open>d\<close> to the opened file (a full
    disk), with the bytes that had reached the file.
\<close>

record env =
  data_path :: pystr
  uuid_hex :: "nat \<Rightarrow> pystr"
  remote :: "http_request \<Rightarrow> exn + response"
  oserror_text :: "nat \<Rightarrow> pystr \<Rightarrow> pystr"
  mkdir_fault :: "pystr \<Rightarrow> exn option"
  open_fault :: "pystr \<Rightarrow> exn option"
  write_fault :: "pystr \<Rightarrow> bytes \<Rightarrow> (exn \<times> bytes) option"

text \<open>
  The state the adapter changes: the files and directories on disk, the POSTs attempted so
  far (oldest first) and the number of UUIDs drawn. The calls to the host's logger write
  to the log only and are left out.
\<close>

record world =
  files :: "pystr \<rightharpoonup> bytes"
  dirs :: "pystr set"
  sent :: "http_request list"
  drawn :: nat

text \<open>
  \<open>os.makedirs(p, exist_ok=True)\<close>, with the exception it raises, if any. An existing
  directory is accepted; an existing regular file is \<open>FileExistsError\<close> (errno 17); any
  other failure is the environment's.
\<close>

definition makedirs :: "env \<Rightarrow> pystr \<Rightarrow> world \<Rightarrow> exn option \<times> world" where
  "makedirs e p w =
     (if p \<in> dirs w then (None, w)
      else if files w p \<noteq> None then (Some (OtherException (oserror_text e 17 p)), w)
      else case mkdir_fault e p of
             Some x \<Rightarrow> (Some x, w)
           | None \<Rightarrow> (None, w\<lparr>dirs := insert p (dirs w)\<rparr>))"

definition uuid4_hex :: "env \<Rightarrow> world \<Rightarrow> pystr \<times> world" where
  "uuid4_hex e w = (uuid_hex e (drawn w), w\<lparr>drawn := Suc (drawn w)\<rparr>)"

text \<open>
  \<open>os.path.dirname(p)\<close> on POSIX: everything up to the last separator, without trailing
  separators unless it consists of separators only.
\<close>

definition dirname :: "pystr \<Rightarrow> pystr" where
  "dirname p =
     (let head = rev (dropWhile (\<lambda>c. c \<noteq> 0x2F) (rev p))
      in if head \<noteq> [] \<and> head \<noteq> replicate (length head) 0x2F
         then rev (dropWhile (\<lambda>c. c = 0x2F) (rev head))
         else head)"

text \<open>
  \<open>with open(p, "wb") as f: f.write(d)\<close>, with the exception it raises, if any. Opening a
  directory is \<open>IsADirectoryError\<close> (errno 21); opening a file in a directory that does
  not exist is \<open>FileNotFoundError\<close> (errno 2; a name without a directory part is in the
  current directory); any other failure is the environment's. Opening creates or empties
  the file, so a failed write leaves what had been written.
\<close>

definition write_file :: "env \<Rightarrow> pystr \<Rightarrow> bytes \<Rightarrow> world \<Rightarrow> exn option \<times> world" where
  "write_file e p d w =
     (if p \<in> dirs w then (Some (OtherException (oserror_text e 21 p)), w)
      else if dirname p \<noteq> [] \<and> dirname p \<notin> dirs w
        then (Some (OtherException (oserror_text e 2 p)), w)
      else case open_fault e p of
             Some x \<Rightarrow> (Some x, w)
           | None \<Rightarrow>
               (case write_fault e p d of
                  Some (x, written) \<Rightarrow> (Some x, w\<lparr>files := (files w)(p \<mapsto> written)\<rparr>)
                | None \<Rightarrow> (None, w\<lparr>files := (files w)(p \<mapsto> d)\<rparr>)))"

text \<open>
  \<open>os.path.exists\<close> and \<open>os.path.getsize\<close>. The size is only asked of the path just
  written (the \<open>and\<close> of the source skips it when the path does not exist).
\<close>

definition path_exists :: "world \<Rightarrow> pystr \<Rightarrow> bool" where
  "path_exists w p = (files w p \<noteq> None \<or> p \<in> dirs w)"

definition getsize :: "world \<Rightarrow> pystr \<Rightarrow> nat" where
  "getsize w p = (case files w p of Some d \<Rightarrow> length d | None \<Rightarrow> 0)"

definition post :: "env \<Rightarrow> http_request \<Rightarrow> world \<Rightarrow> (exn + response) \<times> world" where
  "post e r w = (remote e r, w\<lparr>sent := sent w @ [r]\<rparr>)"

section \<open>get_audio\<close>

definition custom_tts_tag :: pystr where
  "custom_tts_tag = ascii ''[Custom TTS] ''"

text \<open>The messages of the six \<open>raise\<close> statements, in source order.\<close>

definition msg_empty_text :: pystr where
  "msg_empty_text =
     custom_tts_tag @ ascii ''TTS'' @ [0x6587, 0x672C, 0x4E0D, 0x80FD, 0x4E3A, 0x7A7A]"

definition msg_empty_file :: pystr where
  "msg_empty_file =
     custom_tts_tag @ [0x751F, 0x6210, 0x7684, 0x97F3, 0x9891, 0x6587, 0x4EF6, 0x4E3A,
                       0x7A7A, 0x6216, 0x4E0D, 0x5B58, 0x5728]"

definition msg_api_failed :: "nat \<Rightarrow> pystr \<Rightarrow> pystr" where
  "msg_api_failed status error_text =
     custom_tts_tag @ ascii ''API'' @ [0x8BF7, 0x6C42, 0x5931, 0x8D25] @ ascii '': ''
       @ str_nat status @ ascii '' - '' @ error_text"

definition msg_network :: "pystr \<Rightarrow> pystr" where
  "msg_network e =
     custom_tts_tag @ [0x7F51, 0x7EDC, 0x8BF7, 0x6C42, 0x5931, 0x8D25] @ ascii '': '' @ e"

definition msg_timeout :: pystr where
  "msg_timeout = custom_tts_tag @ [0x8BF7, 0x6C42, 0x8D85, 0x65F6]"

definition msg_unknown :: "pystr \<Rightarrow> pystr" where
  "msg_unknown e = custom_tts_tag @ [0x672A, 0x77E5, 0x9519, 0x8BEF] @ ascii '': '' @ e"

text \<open>The directory and the destination path of lines 103 and 105.\<close>

definition temp_dir_of :: "env \<Rightarrow> pystr" where
  "temp_dir_of e = path_join (data_path e) (ascii ''temp'')"

definition audio_path_of :: "env \<Rightarrow> pystr \<Rightarrow> pystr" where
  "audio_path_of e hex = path_join (temp_dir_of e) (ascii ''custom_tts_'' @ hex @ ascii ''.wav'')"

definition endpoint :: "adapter \<Rightarrow> pystr" where
  "endpoint self = api_base self @ ascii ''/get_role_music''"

definition synthesis_request :: "adapter \<Rightarrow> pystr \<Rightarrow> http_request" where
  "synthesis_request self text =
     \<lparr> req_url = endpoint self,
       req_json = \<lparr> rd_role = role self, rd_emotion = emotion self,
                    rd_content = text, rd_speed = speed self \<rparr>,
       req_headers = headers self,
       req_timeout = timeout self \<rparr>"

text \<open>
  The body of the \<open>try\<close> statement: the POST, then either the write and the check of the
  file, or the error text. An exception (of the POST, of reading the response, of the
  write) leaves the block at the point it is raised.
\<close>

definition try_body :: "adapter \<Rightarrow> env \<Rightarrow> pystr \<Rightarrow> pystr \<Rightarrow> world \<Rightarrow> (exn + pystr) \<times> world" where
  "try_body self e text audio_path w =
     (case post e (synthesis_request self text) w of
        (Inl x, w1) \<Rightarrow> (Inl x, w1)
      | (Inr resp, w1) \<Rightarrow>
          if resp_status resp = 200 then
            (case resp_read resp of
               Inl x \<Rightarrow> (Inl x, w1)
             | Inr audio_data \<Rightarrow>
                 (case write_file e audio_path audio_data w1 of
                    (Some x, w2) \<Rightarrow> (Inl x, w2)
                  | (None, w2) \<Rightarrow>
                      if path_exists w2 audio_path \<and> getsize w2 audio_path > 0
                      then (Inr audio_path, w2)
                      else (Inl (RuntimeError msg_empty_file), w2)))
          else
            (case resp_text resp of
               Inl x \<Rightarrow> (Inl x, w1)
             | Inr error_text \<Rightarrow>
                 (Inl (RuntimeError (msg_api_failed (resp_status resp) error_text)), w1)))"

text \<open>
  The three \<open>except\<close> clauses, tried in order on whatever the block raised:
  \<open>aiohttp.ClientError\<close>, \<open>asyncio.TimeoutError\<close>, then \<open>Exception\<close>.
\<close>

fun except_clauses :: "exn \<Rightarrow> exn" where
  "except_clauses (ClientError m) = RuntimeError (msg_network m)"
| "except_clauses (TimeoutError m) = RuntimeError msg_timeout"
| "except_clauses x = RuntimeError (msg_unknown (exn_str x))"

text \<open>
  \<open>get_audio\<close>. The emptiness check, the directory and the path come before the \<open>try\<close>
  statement: an exception of \<open>os.makedirs\<close> reaches the caller as it is.
\<close>

definition get_audio :: "adapter \<Rightarrow> env \<Rightarrow> pystr \<Rightarrow> world \<Rightarrow> (exn + pystr) \<times> world" where
  "get_audio self e text w =
     (if strip text = [] then (Inl (ValueError msg_empty_text), w)
      else
        case makedirs e (temp_dir_of e) w of
          (Some x, w1) \<Rightarrow> (Inl x, w1)
        | (None, w1) \<Rightarrow>
            let (hex, w2) = uuid4_hex e w1
            in case try_body self e text (audio_path_of e hex) w2 of
                 (Inr p, w3) \<Rightarrow> (Inr p, w3)
               | (Inl x, w3) \<Rightarrow> (Inl (except_clauses x), w3))"

section \<open>test_connection\<close>

text \<open>The probe content is U+6D4B U+8BD5.\<close>

definition probe_request :: "adapter \<Rightarrow> http_request" where
  "probe_request self =
     \<lparr> req_url = endpoint self,
       req_json = \<lparr> rd_role = role self, rd_emotion = emotion self,
                    rd_content = [0x6D4B, 0x8BD5], rd_speed = PyFloat 1.0 \<rparr>,
       req_headers = headers self,
       req_timeout = PyInt 10 \<rparr>"

text \<open>
  The \<open>try\<close> block returns the membership test or raises; \<open>except Exception\<close> turns every
  exception into \<open>False\<close>.
\<close>

definition probe_body :: "adapter \<Rightarrow> env \<Rightarrow> world \<Rightarrow> (exn + bool) \<times> world" where
  "probe_body self e w =
     (case post e (probe_request self) w of
        (Inl x, w1) \<Rightarrow> (Inl x, w1)
      | (Inr resp, w1) \<Rightarrow> (Inr (resp_status resp \<in> set [200, 400, 422]), w1))"

definition test_connection :: "adapter \<Rightarrow> env \<Rightarrow> world \<Rightarrow> (exn + bool) \<times> world" where
  "test_connection self e w =
     (case probe_body self e w of
        (Inr b, w1) \<Rightarrow> (Inr b, w1)
      | (Inl x, w1) \<Rightarrow> (Inr False, w1))"

section \<open>Auxiliary notions and sample data\<close>

text \<open>
  The exception \<open>x\<close> is raised by the request: by the POST itself, or by reading the
  body of the response it returned (\<open>read()\<close> after a 200, \<open>text()\<close> otherwise).
\<close>

definition raised_by_request :: "env \<Rightarrow> http_request \<Rightarrow> exn \<Rightarrow> bool" where
  "raised_by_request e r x =
     (case remote e r of
        Inl y \<Rightarrow> y = x
      | Inr resp \<Rightarrow>
          if resp_status resp = 200 then resp_read resp = Inl x else resp_text resp = Inl x)"

text \<open>
  A configuration with no key set; an environment whose POST has a fixed outcome and whose
  operating system adds no failure of its own; an empty disk; a disk where the temporary
  directory's name is taken by a regular file.
\<close>

definition default_config :: provider_config where
  "default_config =
     \<lparr> cfg_api_base = None, cfg_api_key = None, cfg_timeout = None, cfg_role = None,
       cfg_emotion = None, cfg_speed = None, cfg_model = None \<rparr>"

definition sample_env :: "(exn + response) \<Rightarrow> env" where
  "sample_env r =
     \<lparr> data_path = ascii ''/data'',
       uuid_hex = (\<lambda>n. ascii ''0123456789abcdef0123456789abcdef''),
       remote = (\<lambda>q. r),
       oserror_text = (\<lambda>n p. ascii ''[Errno '' @ str_nat n @ ascii ''] '' @ p),
       mkdir_fault = (\<lambda>p. None),
       open_fault = (\<lambda>p. None),
       write_fault = (\<lambda>p d. None) \<rparr>"

definition empty_world :: world where
  "empty_world = \<lparr> files = Map.empty, dirs = {}, sent = [], drawn = 0 \<rparr>"

definition blocked_world :: world where
  "blocked_world = \<lparr> files = [ascii ''/data/temp'' \<mapsto> []], dirs = {}, sent = [], drawn = 0 \<rparr>"

text \<open>Three responses: a 200 carrying four bytes, a 200 with an empty body, a 404.\<close>

definition riff_ok :: response where
  "riff_ok = \<lparr> resp_status = 200, resp_read = Inr [0x52, 0x49, 0x46, 0x46],
               resp_text = Inr (ascii ''RIFF'') \<rparr>"

definition empty_ok :: response where
  "empty_ok = \<lparr> resp_status = 200, resp_read = Inr [], resp_text = Inr [] \<rparr>"

definition not_found :: response where
  "not_found = \<lparr> resp_status = 404, resp_read = Inr [], resp_text = Inr (ascii ''Not Found'') \<rparr>"

section \<open>Basic facts\<close>

lemma strip_empty_iff: "strip s = [] \<longleftrightarrow> (\<forall>c \<in> set s. isspace c)"
proof
  assume "strip s = []"
  then have a: "\<forall>c \<in> set (dropWhile isspace s). isspace c"
    by (simp add: strip_def)
  have "dropWhile isspace s = []"
  proof (rule ccontr)
    assume ne: "dropWhile isspace s \<noteq> []"
    then have "\<not> isspace (hd (dropWhile isspace s))"
      by (rule hd_dropWhile)
    moreover from ne have "hd (dropWhile isspace s) \<in> set (dropWhile isspace s)"
      by simp
    ultimately show False using a by blast
  qed
  then show "\<forall>c \<in> set s. isspace c"
    by simp
next
  assume "\<forall>c \<in> set s. isspace c"
  then show "strip s = []"
    by (auto simp: strip_def dest: set_dropWhileD)
qed

lemma strip_hi: "strip (ascii ''hi'') \<noteq> []"
  by (simp add: strip_def isspace_def ascii_def)

lemma blank_sample: "isspace 0x20 \<and> isspace 0x09 \<and> isspace 0x3000"
  by (simp add: isspace_def)

lemma endswith_self: "endswith suf suf"
  by (simp add: endswith_def)

lemma endswith_appendI: "endswith s suf \<Longrightarrow> endswith (a @ s) suf"
  by (auto simp: endswith_def)

lemma endswith_path_join: "endswith b suf \<Longrightarrow> endswith (path_join a b) suf"
  by (simp add: path_join_def endswith_appendI)

lemma audio_path_wav: "endswith (audio_path_of e h) (ascii ''.wav'')"
  unfolding audio_path_of_def
  by (intro endswith_path_join endswith_appendI endswith_self)

lemma endswith_iff: "endswith s suf \<longleftrightarrow> (\<exists>p. s = p @ suf)"
proof
  assume "endswith s suf"
  then have "s = take (length s - length suf) s @ suf"
    by (metis append_take_drop_id endswith_def)
  then show "\<exists>p. s = p @ suf" ..
next
  assume "\<exists>p. s = p @ suf"
  then show "endswith s suf" by (auto simp: endswith_def)
qed

lemma makedirs_succeeds_iff:
  "fst (makedirs e p w) = None \<longleftrightarrow> p \<in> dirs w \<or> (files w p = None \<and> mkdir_fault e p = None)"
  by (auto simp: makedirs_def split: option.splits)

lemma makedirs_ok:
  assumes "fst (makedirs e p w) = None"
  shows "makedirs e p w = (None, w\<lparr>dirs := insert p (dirs w)\<rparr>)"
proof (cases "p \<in> dirs w")
  case True
  then have "insert p (dirs w) = dirs w" by (rule insert_absorb)
  then have "w\<lparr>dirs := insert p (dirs w)\<rparr> = w" by simp
  with True show ?thesis by (simp add: makedirs_def)
next
  case False
  with assms show ?thesis by (auto simp: makedirs_def split: option.splits if_splits)
qed

lemma temp_dir_cases:
  "temp_dir_of e = data_path e @ ascii ''temp'' \<or> temp_dir_of e = data_path e @ ascii ''/temp''"
  by (simp add: temp_dir_of_def path_join_def startswith_def ascii_def)

lemma temp_dir_last: "temp_dir_of e \<noteq> [] \<and> last (temp_dir_of e) = 0x70"
  using temp_dir_cases [of e] by (auto simp: ascii_def)

lemma endswith_slash_last: "endswith s (ascii ''/'') \<Longrightarrow> last s = 0x2F"
  by (auto simp: endswith_iff ascii_def)

lemma audio_path_eq:
  "audio_path_of e h = temp_dir_of e @ 0x2F # ascii ''custom_tts_'' @ h @ ascii ''.wav''"
proof -
  have "\<not> endswith (temp_dir_of e) (ascii ''/'')"
    using temp_dir_last [of e] endswith_slash_last [of "temp_dir_of e"] by auto
  then show ?thesis
    using temp_dir_last [of e]
    by (simp add: audio_path_of_def path_join_def startswith_def ascii_def)
qed

lemma dirname_join:
  assumes "d \<noteq> []" and "last d \<noteq> 0x2F" and "0x2F \<notin> set b"
  shows "dirname (d @ 0x2F # b) = d"
proof -
  have b: "dropWhile (\<lambda>c. c \<noteq> 0x2F) (rev b) = []"
    using assms(3) by (auto simp: dropWhile_eq_Nil_conv)
  have "dropWhile (\<lambda>c. c \<noteq> 0x2F) (rev (d @ 0x2F # b)) = 0x2F # rev d"
    using b by (simp add: dropWhile_append)
  then have head: "rev (dropWhile (\<lambda>c. c \<noteq> 0x2F) (rev (d @ 0x2F # b))) = d @ [0x2F]"
    by simp
  have hd: "hd (rev d) \<noteq> 0x2F"
    using assms(1,2) by (simp add: hd_rev)
  have ne: "d @ [0x2F] \<noteq> replicate (length (d @ [0x2F])) 0x2F"
  proof
    assume "d @ [0x2F] = replicate (length (d @ [0x2F])) 0x2F"
    then have "set (d @ [0x2F]) \<subseteq> {0x2F}" by (metis set_replicate_conv_if empty_subsetI subset_refl)
    moreover have "last d \<in> set d" using assms(1) by simp
    ultimately show False using assms(2) by auto
  qed
  have strip: "dropWhile (\<lambda>c. c = 0x2F) (rev d) = rev d"
    using assms(1) hd by (cases "rev d") auto
  show ?thesis
    unfolding dirname_def head Let_def using ne strip by simp
qed

lemma dirname_audio_path:
  assumes "0x2F \<notin> set h"
  shows "dirname (audio_path_of e h) = temp_dir_of e"
proof -
  have "0x2F \<notin> set (ascii ''custom_tts_'' @ h @ ascii ''.wav'')"
    using assms by (simp add: ascii_def)
  then show ?thesis
    unfolding audio_path_eq using temp_dir_last [of e] by (intro dirname_join) auto
qed

lemma write_file_ok:
  assumes "p \<notin> dirs w" and "dirname p \<in> dirs w"
    and "open_fault e p = None" and "write_fault e p d = None"
  shows "write_file e p d w = (None, w\<lparr>files := (files w)(p \<mapsto> d)\<rparr>)"
  using assms by (simp add: write_file_def)

lemma get_audio_nonblank:
  assumes "strip text \<noteq> []" and "fst (makedirs e (temp_dir_of e) w) = None"
  shows "get_audio self e text w =
     (case try_body self e text (audio_path_of e (uuid_hex e (drawn w)))
             (w\<lparr>dirs := insert (temp_dir_of e) (dirs w), drawn := Suc (drawn w)\<rparr>) of
        (Inr p, w3) \<Rightarrow> (Inr p, w3)
      | (Inl x, w3) \<Rightarrow> (Inl (except_clauses x), w3))"
  using assms(1) makedirs_ok [OF assms(2)]
  by (simp add: get_audio_def uuid4_hex_def)

lemma get_audio_makedirs_error:
  assumes "strip text \<noteq> []" and "makedirs e (temp_dir_of e) w = (Some x, w')"
  shows "get_audio self e text w = (Inl x, w')"
  using assms by (simp add: get_audio_def)

lemma try_body_raises:
  "raised_by_request e (synthesis_request self text) x \<Longrightarrow>
   fst (try_body self e text p w) = Inl x"
  by (auto simp: raised_by_request_def try_body_def post_def split: sum.splits if_splits)

lemma get_audio_raises:
  assumes "strip text \<noteq> []" and "fst (makedirs e (temp_dir_of e) w) = None"
    and "raised_by_request e (synthesis_request self text) x"
  shows "fst (get_audio self e text w) = Inl (except_clauses x)"
proof -
  define p where "p = audio_path_of e (uuid_hex e (drawn w))"
  define w2 where
    "w2 = w\<lparr>dirs := insert (temp_dir_of e) (dirs w), drawn := Suc (drawn w)\<rparr>"
  have "fst (try_body self e text p w2) = Inl x"
    using assms(3) by (rule try_body_raises)
  then show ?thesis
    unfolding get_audio_nonblank [OF assms(1,2)] p_def [symmetric] w2_def [symmetric]
    by (auto split: prod.splits sum.splits)
qed

lemma write_file_sent: "write_file e p d w = (r, w') \<Longrightarrow> sent w' = sent w"
  by (auto simp: write_file_def split: option.splits prod.splits if_splits)

lemma try_body_sent:
  "sent (snd (try_body self e text p w)) = sent w @ [synthesis_request self text]"
  by (auto simp: try_body_def post_def split: sum.splits prod.splits option.splits
      dest!: write_file_sent)

lemma get_audio_sent:
  assumes "strip text \<noteq> []" and "fst (makedirs e (temp_dir_of e) w) = None"
  shows "sent (snd (get_audio self e text w)) = sent w @ [synthesis_request self text]"
proof -
  define p where "p = audio_path_of e (uuid_hex e (drawn w))"
  define w2 where
    "w2 = w\<lparr>dirs := insert (temp_dir_of e) (dirs w), drawn := Suc (drawn w)\<rparr>"
  have "sent (snd (try_body self e text p w2)) = sent w2 @ [synthesis_request self text]"
    by (rule try_body_sent)
  moreover have "sent w2 = sent w" by (simp add: w2_def)
  ultimately show ?thesis
    unfolding get_audio_nonblank [OF assms] p_def [symmetric] w2_def [symmetric]
    by (auto split: prod.splits sum.splits)
qed

lemma get_audio_write_error:
  assumes "strip text \<noteq> []" and "fst (makedirs e (temp_dir_of e) w) = None"
    and "remote e (synthesis_request self text) = Inr resp"
    and "resp_status resp = 200"
    and "resp_read resp = Inr body"
    and "fst (write_file e (audio_path_of e (uuid_hex e (drawn w))) body
               (w\<lparr>dirs := insert (temp_dir_of e) (dirs w), drawn := Suc (drawn w),
                  sent := sent w @ [synthesis_request self text]\<rparr>)) = Some x"
  shows "fst (get_audio self e text w) = Inl (except_clauses x)"
  using assms(3-6) unfolding get_audio_nonblank [OF assms(1,2)]
  by (auto simp: try_body_def post_def split: prod.splits sum.splits option.splits)

lemma makedirs_sample:
  "fst (makedirs (sample_env r) (temp_dir_of (sample_env r)) empty_world) = None"
  by (simp add: makedirs_def sample_env_def empty_world_def)

text \<open>
  Where the name of the temporary directory is taken by a regular file, \<open>os.makedirs\<close>
  raises and \<open>get_audio\<close> passes the error on: nothing is sent and nothing is written.
\<close>

lemma get_audio_blocked_directory:
  "get_audio (init default_config) (sample_env (Inr riff_ok)) (ascii ''hi'') blocked_world
     = (Inl (OtherException (ascii ''[Errno 17] /data/temp'')), blocked_world)"
proof -
  have "makedirs (sample_env (Inr riff_ok)) (temp_dir_of (sample_env (Inr riff_ok))) blocked_world
          = (Some (OtherException (ascii ''[Errno 17] /data/temp'')), blocked_world)"
    by (simp add: makedirs_def temp_dir_of_def path_join_def startswith_def endswith_def
        sample_env_def blocked_world_def ascii_def str_nat.simps)
  with strip_hi show ?thesis by (rule get_audio_makedirs_error)
qed

lemma msg_timeout_neq_network: "msg_timeout \<noteq> msg_network c"
  by (simp add: msg_timeout_def msg_network_def)

lemma test_connection_sent:
  "sent (snd (test_connection self e w)) = sent w @ [probe_request self]"
  by (simp add: test_connection_def probe_body_def post_def split: sum.splits prod.splits)

lemma strip_one_slash:
  assumes "\<not> endswith s (ascii ''//'')"
  shows "\<not> endswith (if endswith s (ascii ''/'') then butlast s else s) (ascii ''/'')"
proof (cases "endswith s (ascii ''/'')")
  case False
  then show ?thesis by simp
next
  case True
  then obtain p where p: "s = p @ ascii ''/''" by (auto simp: endswith_iff)
  have "\<not> endswith p (ascii ''/'')"
  proof
    assume "endswith p (ascii ''/'')"
    then obtain q where "p = q @ ascii ''/''" by (auto simp: endswith_iff)
    with p have "s = q @ ascii ''//''" by (simp add: ascii_def)
    with assms show False by (auto simp: endswith_iff)
  qed
  moreover from p have "butlast s = p" by (simp add: ascii_def butlast_append)
  ultimately show ?thesis using True by simp
qed

lemma no_double_slash_at_join:
  assumes "\<not> endswith b (ascii ''/'')"
  shows "\<not> endswith (b @ ascii ''/get_role_music'') (ascii ''//get_role_music'')"
proof
  assume "endswith (b @ ascii ''/get_role_music'') (ascii ''//get_role_music'')"
  then obtain p where "b @ ascii ''/get_role_music'' = p @ ascii ''//get_role_music''"
    by (auto simp: endswith_iff)
  then have "b @ ascii ''/get_role_music'' = (p @ ascii ''/'') @ ascii ''/get_role_music''"
    by (simp add: ascii_def)
  then have "b = p @ ascii ''/''" by (simp only: append_same_eq)
  with assms show False by (auto simp: endswith_iff)
qed

section \<open>Properties of get_audio\<close>

text \<open>
  C1. For a text that is not empty after trimming, when the POST to the endpoint is
  answered with status 200 and a non-empty body, \<open>get_audio\<close> returns a path that ends in
  \<open>.wav\<close>, that exists on disk afterwards with a non-zero size, and whose content is
  exactly the bytes of the response body. This presupposes a disk that works: the
  temporary directory can be created, the destination (whose UUID part has no separator)
  is not a directory, and neither opening nor writing the file fails.
\<close>

theorem get_audio_success_writes_body:
  assumes "strip content \<noteq> []"
    and "fst (makedirs e (temp_dir_of e) w) = None"
    and "0x2F \<notin> set (uuid_hex e (drawn w))"
    and "audio_path_of e (uuid_hex e (drawn w)) \<notin> dirs w"
    and "open_fault e (audio_path_of e (uuid_hex e (drawn w))) = None"
    and "write_fault e (audio_path_of e (uuid_hex e (drawn w))) body = None"
    and "remote e (synthesis_request self content) = Inr resp"
    and "resp_status resp = 200"
    and "resp_read resp = Inr body"
    and "body \<noteq> []"
  shows "\<exists>p w'. get_audio self e content w = (Inr p, w') \<and> endswith p (ascii ''.wav'')
           \<and> path_exists w' p \<and> getsize w' p > 0 \<and> files w' p = Some body"
proof -
  define p where "p = audio_path_of e (uuid_hex e (drawn w))"
  define w2 where
    "w2 = w\<lparr>dirs := insert (temp_dir_of e) (dirs w), drawn := Suc (drawn w)\<rparr>"
  define w3 where "w3 = w2\<lparr>sent := sent w2 @ [synthesis_request self content]\<rparr>"
  have d: "dirname p = temp_dir_of e"
    unfolding p_def using assms(3) by (rule dirname_audio_path)
  have "p \<noteq> temp_dir_of e"
    unfolding p_def audio_path_eq by simp
  with assms(4) have nd: "p \<notin> dirs w3" by (simp add: w3_def w2_def p_def)
  have pd: "dirname p \<in> dirs w3" by (simp add: d w3_def w2_def)
  have wr: "write_file e p body w3 = (None, w3\<lparr>files := (files w3)(p \<mapsto> body)\<rparr>)"
    using nd pd assms(5,6) unfolding p_def [symmetric] by (rule write_file_ok)
  have tb: "try_body self e content p w2 = (Inr p, w3\<lparr>files := (files w3)(p \<mapsto> body)\<rparr>)"
    using assms(7-10) wr
    by (simp add: try_body_def post_def w3_def path_exists_def getsize_def)
  have "get_audio self e content w = (Inr p, w3\<lparr>files := (files w3)(p \<mapsto> body)\<rparr>)"
    unfolding get_audio_nonblank [OF assms(1,2)] p_def [symmetric] w2_def [symmetric]
    by (simp add: tb)
  moreover have "endswith p (ascii ''.wav'')" unfolding p_def by (rule audio_path_wav)
  ultimately show ?thesis
    using assms(10) by (simp add: path_exists_def getsize_def)
qed

theorem get_audio_success_writes_body_witness:
  "strip (ascii ''hi'') \<noteq> []
   \<and> fst (makedirs (sample_env (Inr riff_ok)) (temp_dir_of (sample_env (Inr riff_ok))) empty_world)
       = None
   \<and> 0x2F \<notin> set (uuid_hex (sample_env (Inr riff_ok)) (drawn empty_world))
   \<and> audio_path_of (sample_env (Inr riff_ok)) (uuid_hex (sample_env (Inr riff_ok)) (drawn empty_world))
       \<notin> dirs empty_world
   \<and> open_fault (sample_env (Inr riff_ok))
        (audio_path_of (sample_env (Inr riff_ok)) (uuid_hex (sample_env (Inr riff_ok)) (drawn empty_world)))
       = None
   \<and> write_fault (sample_env (Inr riff_ok))
        (audio_path_of (sample_env (Inr riff_ok)) (uuid_hex (sample_env (Inr riff_ok)) (drawn empty_world)))
        [0x52, 0x49, 0x46, 0x46] = None
   \<and> remote (sample_env (Inr riff_ok)) (synthesis_request (init default_config) (ascii ''hi''))
       = Inr riff_ok
   \<and> resp_status riff_ok = 200
   \<and> resp_read riff_ok = Inr [0x52, 0x49, 0x46, 0x46]
   \<and> (\<exists>p w'. get_audio (init default_config) (sample_env (Inr riff_ok)) (ascii ''hi'') empty_world
                 = (Inr p, w')
        \<and> endswith p (ascii ''.wav'') \<and> path_exists w' p \<and> getsize w' p > 0
        \<and> files w' p = Some [0x52, 0x49, 0x46, 0x46])"
proof -
  have h: "0x2F \<notin> set (uuid_hex (sample_env (Inr riff_ok)) (drawn empty_world))"
    by (simp add: sample_env_def ascii_def)
  have d: "audio_path_of (sample_env (Inr riff_ok))
             (uuid_hex (sample_env (Inr riff_ok)) (drawn empty_world)) \<notin> dirs empty_world"
    by (simp add: empty_world_def)
  have f: "open_fault (sample_env (Inr riff_ok)) p = None"
          "write_fault (sample_env (Inr riff_ok)) p b = None" for p b
    by (simp_all add: sample_env_def)
  have r: "remote (sample_env (Inr riff_ok)) q = Inr riff_ok" for q
    by (simp add: sample_env_def)
  have s: "resp_status riff_ok = 200" "resp_read riff_ok = Inr [0x52, 0x49, 0x46, 0x46]"
    by (simp_all add: riff_ok_def)
  show ?thesis
    using get_audio_success_writes_body
      [where content = "ascii ''hi''" and e = "sample_env (Inr riff_ok)"
         and self = "init default_config" and resp = riff_ok
         and body = "[0x52, 0x49, 0x46, 0x46]" and w = empty_world,
       OF strip_hi makedirs_sample h d f(1) f(2) r s]
      strip_hi makedirs_sample h d f r s
    by simp
qed

text \<open>
  C2. For a text that is empty or consists only of whitespace, \<open>get_audio\<close> fails with a
  \<open>ValueError\<close> (the invalid-input error) and attempts no POST: the list of requests sent
  is unchanged.
\<close>

theorem get_audio_blank_text_invalid_input:
  assumes "\<forall>c \<in> set content. isspace c"
  shows "fst (get_audio self e content w) = Inl (ValueError msg_empty_text)
         \<and> sent (snd (get_audio self e content w)) = sent w"
  using assms by (simp add: get_audio_def strip_empty_iff)

theorem get_audio_blank_text_invalid_input_witness:
  "isspace 0x20 \<and> isspace 0x09 \<and> isspace 0x3000
   \<and> fst (get_audio (init default_config) (sample_env (Inr riff_ok)) [0x20, 0x09, 0x3000] empty_world)
       = Inl (ValueError msg_empty_text)
   \<and> sent (snd (get_audio (init default_config) (sample_env (Inr riff_ok)) [0x20, 0x09, 0x3000]
                  empty_world)) = []"
  using get_audio_blank_text_invalid_input
    [where content = "[0x20, 0x09, 0x3000]" and self = "init default_config"
       and e = "sample_env (Inr riff_ok)" and w = empty_world]
  by (simp add: blank_sample empty_world_def)

text \<open>
  C9. For a text that is empty or consists only of whitespace, \<open>get_audio\<close> has no effect on
  the filesystem: no directory is created, no file is written, and no UUID is drawn for a
  destination path.
\<close>

theorem get_audio_blank_text_no_filesystem_effect:
  assumes "\<forall>c \<in> set content. isspace c"
  shows "dirs (snd (get_audio self e content w)) = dirs w
       \<and> files (snd (get_audio self e content w)) = files w
       \<and> drawn (snd (get_audio self e content w)) = drawn w"
  using assms by (simp add: get_audio_def strip_empty_iff)

theorem get_audio_blank_text_no_filesystem_effect_witness:
  "isspace 0x20 \<and> isspace 0x09 \<and> isspace 0x3000
   \<and> dirs (snd (get_audio (init default_config) (sample_env (Inr riff_ok)) [0x20, 0x09, 0x3000]
                  empty_world)) = {}
   \<and> files (snd (get_audio (init default_config) (sample_env (Inr riff_ok)) [0x20, 0x09, 0x3000]
                   empty_world)) = Map.empty
   \<and> drawn (snd (get_audio (init default_config) (sample_env (Inr riff_ok)) [0x20, 0x09, 0x3000]
                   empty_world)) = 0"
  using get_audio_blank_text_no_filesystem_effect
    [where content = "[0x20, 0x09, 0x3000]" and self = "init default_config"
       and e = "sample_env (Inr riff_ok)" and w = empty_world]
  by (simp add: blank_sample empty_world_def)

text \<open>
  C6. When the request times out (\<open>asyncio.TimeoutError\<close> from the POST or from reading the
  response), \<open>get_audio\<close> fails with the timeout error; when it fails at transport level
  (\<open>aiohttp.ClientError\<close>), \<open>get_audio\<close> fails with the network error carrying the cause;
  and the two errors are different. (The request is made once the temporary directory
  has been created.)
\<close>

theorem get_audio_timeout_distinct_from_network:
  assumes "strip content \<noteq> []"
    and "fst (makedirs e (temp_dir_of e) w) = None"
    and "fst (makedirs e' (temp_dir_of e') w) = None"
    and "raised_by_request e (synthesis_request self content) (TimeoutError m)"
    and "raised_by_request e' (synthesis_request self content) (ClientError c)"
  shows "fst (get_audio self e content w) = Inl (RuntimeError msg_timeout)
       \<and> fst (get_audio self e' content w) = Inl (RuntimeError (msg_network c))
       \<and> fst (get_audio self e content w) \<noteq> fst (get_audio self e' content w)"
  using assms by (simp add: get_audio_raises msg_timeout_neq_network)

theorem get_audio_timeout_distinct_from_network_witness:
  "strip (ascii ''hi'') \<noteq> []
   \<and> fst (makedirs (sample_env (Inl (TimeoutError [])))
            (temp_dir_of (sample_env (Inl (TimeoutError [])))) empty_world) = None
   \<and> fst (makedirs (sample_env (Inl (ClientError (ascii ''refused''))))
            (temp_dir_of (sample_env (Inl (ClientError (ascii ''refused''))))) empty_world) = None
   \<and> raised_by_request (sample_env (Inl (TimeoutError [])))
        (synthesis_request (init default_config) (ascii ''hi'')) (TimeoutError [])
   \<and> raised_by_request (sample_env (Inl (ClientError (ascii ''refused''))))
        (synthesis_request (init default_config) (ascii ''hi'')) (ClientError (ascii ''refused''))
   \<and> fst (get_audio (init default_config) (sample_env (Inl (TimeoutError []))) (ascii ''hi'')
            empty_world) = Inl (RuntimeError msg_timeout)
   \<and> fst (get_audio (init default_config) (sample_env (Inl (ClientError (ascii ''refused''))))
            (ascii ''hi'') empty_world) = Inl (RuntimeError (msg_network (ascii ''refused'')))"
proof -
  have t: "raised_by_request (sample_env (Inl (TimeoutError [])))
             (synthesis_request (init default_config) (ascii ''hi'')) (TimeoutError [])"
    by (simp add: raised_by_request_def sample_env_def)
  have c: "raised_by_request (sample_env (Inl (ClientError (ascii ''refused''))))
             (synthesis_request (init default_config) (ascii ''hi''))
             (ClientError (ascii ''refused''))"
    by (simp add: raised_by_request_def sample_env_def)
  show ?thesis
    using get_audio_timeout_distinct_from_network
      [where w = empty_world, OF strip_hi makedirs_sample makedirs_sample t c]
      strip_hi makedirs_sample t c
    by simp
qed

text \<open>
  C3. For a response with a status other than 200, \<open>get_audio\<close> reads the body as text
  and raises the API-failure error with the status and the text; but that \<open>raise\<close> is
  inside the \<open>try\<close> block, so the last clause (\<open>except Exception\<close>) catches it and the
  caller receives the unknown-error \<open>RuntimeError\<close> wrapped around its message. At a 404
  with body \<open>Not Found\<close>: the result is the unknown error, it is not the API-failure
  error, and it is the same result as when the POST raises an unclassified exception with
  that description.
\<close>

theorem get_audio_non200_wrapped_as_unknown:
  "fst (get_audio (init default_config) (sample_env (Inr not_found)) (ascii ''hi'') empty_world)
     = Inl (RuntimeError (msg_unknown (msg_api_failed 404 (ascii ''Not Found''))))
   \<and> fst (get_audio (init default_config) (sample_env (Inr not_found)) (ascii ''hi'') empty_world)
     \<noteq> Inl (RuntimeError (msg_api_failed 404 (ascii ''Not Found'')))
   \<and> fst (get_audio (init default_config) (sample_env (Inr not_found)) (ascii ''hi'') empty_world)
     = fst (get_audio (init default_config)
             (sample_env (Inl (OtherException (msg_api_failed 404 (ascii ''Not Found'')))))
             (ascii ''hi'') empty_world)"
  unfolding get_audio_nonblank [OF strip_hi makedirs_sample]
  by (simp add: try_body_def post_def sample_env_def not_found_def
      Let_def msg_unknown_def msg_api_failed_def custom_tts_tag_def ascii_def str_nat.simps)

text \<open>
  C5. For a 200 response with an empty body, \<open>get_audio\<close> writes the empty file, the check
  of its size fails and the empty-file error is raised inside the \<open>try\<close> block, where
  \<open>except Exception\<close> catches it: the caller receives the unknown-error \<open>RuntimeError\<close>
  wrapped around its message, not the empty-file error. No path is returned, and an empty
  file is left at the destination.
\<close>

theorem get_audio_empty_body_wrapped_as_unknown:
  "get_audio (init default_config) (sample_env (Inr empty_ok)) (ascii ''hi'') empty_world
     = (Inl (RuntimeError (msg_unknown msg_empty_file)),
        \<lparr> files = [ascii ''/data/temp/custom_tts_0123456789abcdef0123456789abcdef.wav'' \<mapsto> []],
          dirs = {ascii ''/data/temp''},
          sent = [synthesis_request (init default_config) (ascii ''hi'')],
          drawn = 1 \<rparr>)
   \<and> msg_unknown msg_empty_file \<noteq> msg_empty_file"
  unfolding get_audio_nonblank [OF strip_hi makedirs_sample]
  by (simp add: try_body_def post_def sample_env_def empty_ok_def
      Let_def write_file_def dirname_def path_exists_def getsize_def empty_world_def
      temp_dir_of_def audio_path_of_def path_join_def startswith_def endswith_def
      msg_unknown_def msg_empty_file_def custom_tts_tag_def ascii_def)

section \<open>Properties of test_connection\<close>

text \<open>
  C4. \<open>test_connection\<close> never raises: it returns \<open>True\<close> exactly when the probe POST is
  answered with status 200, 400 or 422, and \<open>False\<close> for any other status and for any
  exception.
\<close>

theorem test_connection_reachable_statuses:
  "fst (test_connection self e w) =
     Inr (case remote e (probe_request self) of
            Inl x \<Rightarrow> False
          | Inr resp \<Rightarrow> resp_status resp = 200 \<or> resp_status resp = 400 \<or> resp_status resp = 422)"
  by (simp add: test_connection_def probe_body_def post_def split: sum.splits)

theorem test_connection_reachable_statuses_witness:
  "fst (test_connection (init default_config) (sample_env (Inr riff_ok)) empty_world) = Inr True
   \<and> fst (test_connection (init default_config) (sample_env (Inr not_found)) empty_world) = Inr False
   \<and> fst (test_connection (init default_config)
            (sample_env (Inl (ClientError (ascii ''refused'')))) empty_world) = Inr False"
  using test_connection_reachable_statuses
      [where self = "init default_config" and e = "sample_env (Inr riff_ok)" and w = empty_world]
    test_connection_reachable_statuses
      [where self = "init default_config" and e = "sample_env (Inr not_found)" and w = empty_world]
    test_connection_reachable_statuses
      [where self = "init default_config"
         and e = "sample_env (Inl (ClientError (ascii ''refused'')))" and w = empty_world]
  by (simp add: sample_env_def riff_ok_def not_found_def)

section \<open>Properties of the construction\<close>

text \<open>
  C7, as the code has it. Construction strips exactly one trailing slash. For every
  configured \<open>api_base\<close> string that does not end in two slashes, the stored \<open>api_base\<close>
  is the configured one without its trailing slash (if it had one), it does not end in a
  slash, and the endpoint \<open>api_base + "/get_role_music"\<close> has no double slash at the join.
\<close>

theorem init_strips_one_trailing_slash:
  assumes "cfg_api_base cfg = Some s" and "\<not> endswith s (ascii ''//'')"
  shows "api_base (init cfg) = (if endswith s (ascii ''/'') then butlast s else s)
       \<and> \<not> endswith (api_base (init cfg)) (ascii ''/'')
       \<and> endpoint (init cfg) = api_base (init cfg) @ ascii ''/get_role_music''
       \<and> \<not> endswith (endpoint (init cfg)) (ascii ''//get_role_music'')"
proof -
  have b: "api_base (init cfg) = (if endswith s (ascii ''/'') then butlast s else s)"
    using assms(1) by (simp add: init_def dict_get_def Let_def)
  have n: "\<not> endswith (api_base (init cfg)) (ascii ''/'')"
    unfolding b using assms(2) by (rule strip_one_slash)
  show ?thesis using b n no_double_slash_at_join [OF n] by (simp add: endpoint_def)
qed

theorem init_strips_one_trailing_slash_witness:
  "cfg_api_base (default_config\<lparr>cfg_api_base := Some (ascii ''http://x/'')\<rparr>) = Some (ascii ''http://x/'')
   \<and> \<not> endswith (ascii ''http://x/'') (ascii ''//'')
   \<and> api_base (init (default_config\<lparr>cfg_api_base := Some (ascii ''http://x/'')\<rparr>)) = ascii ''http://x''
   \<and> endpoint (init (default_config\<lparr>cfg_api_base := Some (ascii ''http://x/'')\<rparr>))
       = ascii ''http://x/get_role_music''"
  using init_strips_one_trailing_slash
    [of "default_config\<lparr>cfg_api_base := Some (ascii ''http://x/'')\<rparr>" "ascii ''http://x/''"]
  by (simp add: endswith_def ascii_def)

text \<open>
  C7, as stated, fails: a configured \<open>api_base\<close> with two trailing slashes keeps one, so
  the stored \<open>api_base\<close> ends in a slash and the endpoint has a double slash at the join.
\<close>

theorem init_two_trailing_slashes_counterexample:
  "endswith (api_base (init (default_config\<lparr>cfg_api_base := Some (ascii ''http://x//'')\<rparr>))) (ascii ''/'')
   \<and> endpoint (init (default_config\<lparr>cfg_api_base := Some (ascii ''http://x//'')\<rparr>))
       = ascii ''http://x//get_role_music''"
  by (simp add: init_def default_config_def dict_get_def endpoint_def endswith_def ascii_def)

text \<open>
  C8. After construction the header map holds \<open>Content-Type: application/json\<close> and the
  fixed user agent, and holds \<open>Authorization: Bearer <api_key>\<close> if and only if the
  configured \<open>api_key\<close> is non-empty (an absent key is the empty string); both requests
  send this map.
\<close>

theorem init_headers:
  "headers (init cfg) (ascii ''Content-Type'') = Some (ascii ''application/json'')
   \<and> headers (init cfg) (ascii ''User-Agent'') = Some (ascii ''AstrBot-CustomTTS/1.0'')
   \<and> headers (init cfg) (ascii ''Authorization'') =
       (if dict_get (cfg_api_key cfg) [] = [] then None
        else Some (ascii ''Bearer '' @ dict_get (cfg_api_key cfg) []))
   \<and> req_headers (synthesis_request (init cfg) content) = headers (init cfg)
   \<and> req_headers (probe_request (init cfg)) = headers (init cfg)"
  by (simp add: init_def Let_def base_headers_def synthesis_request_def probe_request_def ascii_def)

theorem init_headers_witness:
  "headers (init (default_config\<lparr>cfg_api_key := Some (ascii ''k1'')\<rparr>)) (ascii ''Authorization'')
     = Some (ascii ''Bearer k1'')
   \<and> headers (init default_config) (ascii ''Authorization'') = None
   \<and> headers (init (default_config\<lparr>cfg_api_key := Some []\<rparr>)) (ascii ''Authorization'') = None"
  using init_headers [where cfg = "default_config\<lparr>cfg_api_key := Some (ascii ''k1'')\<rparr>"]
    init_headers [where cfg = default_config]
    init_headers [where cfg = "default_config\<lparr>cfg_api_key := Some []\<rparr>"]
  by (simp add: default_config_def dict_get_def ascii_def)

text \<open>
  C10. When the configuration has no \<open>api_base\<close>, the stored \<open>api_base\<close> is
  \<open>http://127.0.0.1:50042\<close>, and the POST of \<open>get_audio\<close> (for a text that passes the
  emptiness check, once the temporary directory has been created) and the POST of
  \<open>test_connection\<close> both go to \<open>http://127.0.0.1:50042/get_role_music\<close>.
\<close>

theorem init_default_api_base:
  assumes "cfg_api_base cfg = None" and "strip content \<noteq> []"
    and "fst (makedirs e (temp_dir_of e) w) = None"
  shows "api_base (init cfg) = ascii ''http://127.0.0.1:50042''
       \<and> map req_url (sent (snd (get_audio (init cfg) e content w)))
           = map req_url (sent w) @ [ascii ''http://127.0.0.1:50042/get_role_music'']
       \<and> map req_url (sent (snd (test_connection (init cfg) e w)))
           = map req_url (sent w) @ [ascii ''http://127.0.0.1:50042/get_role_music'']"
proof -
  have b: "api_base (init cfg) = ascii ''http://127.0.0.1:50042''"
    using assms(1) by (simp add: init_def dict_get_def Let_def endswith_def ascii_def)
  then have u: "endpoint (init cfg) = ascii ''http://127.0.0.1:50042/get_role_music''"
    by (simp add: endpoint_def ascii_def)
  show ?thesis
    using b u assms(2,3)
    by (simp add: get_audio_sent test_connection_sent synthesis_request_def probe_request_def)
qed

theorem init_default_api_base_witness:
  "cfg_api_base default_config = None \<and> strip (ascii ''hi'') \<noteq> []
   \<and> fst (makedirs (sample_env (Inr riff_ok)) (temp_dir_of (sample_env (Inr riff_ok))) empty_world)
       = None
   \<and> api_base (init default_config) = ascii ''http://127.0.0.1:50042''
   \<and> map req_url (sent (snd (get_audio (init default_config) (sample_env (Inr riff_ok))
                               (ascii ''hi'') empty_world)))
       = [ascii ''http://127.0.0.1:50042/get_role_music'']
   \<and> map req_url (sent (snd (test_connection (init default_config) (sample_env (Inr riff_ok))
                               empty_world)))
       = [ascii ''http://127.0.0.1:50042/get_role_music'']"
proof -
  have n: "cfg_api_base default_config = None"
    by (simp add: default_config_def)
  have s: "sent empty_world = []"
    by (simp add: empty_world_def)
  show ?thesis
    using init_default_api_base
      [where e = "sample_env (Inr riff_ok)" and w = empty_world, OF n strip_hi makedirs_sample]
      n strip_hi makedirs_sample s
    by simp
qed

end
